theory Spec2Isabelle
  imports Main "HOL-Library.Word"
begin

section \<open>The scan worker of v2/pkg/web/api/services/scans/worker.go\<close>

text \<open>
  The worker drives one scan job: it resolves a settings profile, materialises the
  templates, builds a \<open>scanContext\<close> (registering the job in the service's
  \<open>Running\<close> table and opening its log), populates the context with loader, store
  and engine, runs the engine and closes the context again.

  The embedding is sequential and passes the mutable part of \<open>ScanService\<close>
  explicitly. The packages the file calls (database, yaml, loader, parsers, core,
  progress, the input provider) are parameters, collected in the record
  \<open>collab\<close>: each is a function giving the call's result. Go's \<open>(value, error)\<close>
  results are sums with \<open>Inl\<close> for the error. The \<open>gologger\<close> lines are
  diagnostics and are left out.
\<close>

subsection \<open>Values\<close>

type_synonym int64 = "64 word"

text \<open>Go's \<open>int\<close>, taken as 64 bits wide (the size on amd64 and arm64).\<close>

type_synonym go_int = "64 word"

text \<open>A Go \<open>error\<close> value, known to this file only by its message.\<close>

datatype error = Error string

text \<open>
  A call either returns or panics. A panic unwinds the caller as well, running the
  deferred calls that are already registered.
\<close>

datatype 'a exit = Returned 'a | Panicked

text \<open>\<open>types.Options\<close>: the fields this file reads or writes.\<close>

record types_Options =
  RateLimit :: go_int
  RateLimitMinute :: go_int
  TemplatesDirectory :: string
  Templates :: "string list"
  Workflows :: "string list"

text \<open>The database row of a settings profile and the decoded \<open>settings.Settings\<close>.\<close>

record Setting =
  Settingdata :: string

datatype settings_Settings = Settings go_int go_int

record ScanRequest =
  ScanID :: int64
  Config :: string
  req_Templates :: "string list"
  Targets :: "string list"

text \<open>
  \<open>progress.Progress\<close> is an interface value; \<open>None\<close> is the nil interface.
  \<open>PercentReturnFunc\<close> is the closure of \<open>makePercentReturnFunc\<close>, represented
  by the tracker it captured.
\<close>

datatype progress_Progress = StatsTicker nat

datatype PercentReturnFunc = PercentReturnFunc "progress_Progress option"

definition makePercentReturnFunc :: "progress_Progress option \<Rightarrow> PercentReturnFunc" where
  "makePercentReturnFunc stats = PercentReturnFunc stats"

text \<open>The log sink of a job (an \<open>io.WriteCloser\<close>) and the buffered writer around it.\<close>

datatype WriteCloser = LogFile nat

datatype bufio_Writer = bufio_NewWriter WriteCloser

datatype OutputWriter = newWrappedOutputWriter bufio_Writer int64

datatype Catalog = catalog_New string

text \<open>
  \<open>go.uber.org/ratelimit\<close>: a limiter is represented by the rate and the
  options it was built from. \<open>time.Duration\<close> counts nanoseconds. Without a
  \<open>Per\<close> option the library's window is one second. \<open>ratelimit.New\<close>
  divides the window by the rate, so a rate of 0 panics with an integer division
  by zero; any other rate gives a limiter.
\<close>

type_synonym time_Duration = int

definition time_Second :: time_Duration where
  "time_Second = 1000000000"

datatype ratelimit_Option = ratelimit_Per time_Duration

datatype ratelimit_Limiter = Limiter go_int "ratelimit_Option list"

definition ratelimit_New :: "go_int \<Rightarrow> ratelimit_Option list \<Rightarrow> ratelimit_Limiter exit" where
  "ratelimit_New rate opts = (if rate = 0 then Panicked else Returned (Limiter rate opts))"

fun limiter_rate :: "ratelimit_Limiter \<Rightarrow> go_int" where
  "limiter_rate (Limiter rate opts) = rate"

fun limiter_per :: "ratelimit_Limiter \<Rightarrow> time_Duration" where
  "limiter_per (Limiter rate opts) =
     fold (\<lambda>opt per. case opt of ratelimit_Per d \<Rightarrow> d) opts time_Second"

datatype WorkflowLoader = Loader nat

record ExecuterOptions =
  Output :: OutputWriter
  IssuesClient :: "unit option"
  Options :: types_Options
  Progress :: "progress_Progress option"
  Catalog :: Catalog
  RateLimiter :: "ratelimit_Limiter option"
  WorkflowLoader :: "WorkflowLoader option"

datatype Template = Template string

text \<open>\<open>loader.Store\<close>, seen through \<open>Templates()\<close> and \<open>Workflows()\<close>.\<close>

record Store =
  store_Templates :: "Template list"
  store_Workflows :: "Template list"

datatype loader_Config = loader_NewConfig types_Options Catalog ExecuterOptions

text \<open>\<open>core.Engine\<close>: \<open>core.New\<close> and \<open>SetExecuterOptions\<close> fill its two fields.\<close>

record Engine =
  engine_options :: types_Options
  engine_executerOptions :: "ExecuterOptions option"

definition core_New :: "types_Options \<Rightarrow> Engine" where
  "core_New opts = \<lparr>engine_options = opts, engine_executerOptions = None\<rparr>"

definition SetExecuterOptions :: "Engine \<Rightarrow> ExecuterOptions \<Rightarrow> Engine" where
  "SetExecuterOptions e opts = e\<lparr>engine_executerOptions := Some opts\<rparr>"

record inputProvider =
  Count :: int64

text \<open>
  \<open>scanContext\<close>. The field \<open>scanService\<close> is the service whose state the
  functions below take and return.
\<close>

record scanContext =
  scanID :: int64
  executer :: "Engine option"
  store :: "Store option"
  logs :: bufio_Writer
  logsFile :: WriteCloser
  typesOptions :: types_Options
  executerOpts :: ExecuterOptions

subsection \<open>Collaborators\<close>

text \<open>
  What the called packages return. \<open>store_Load\<close> gives the store after
  \<open>store.Load()\<close> together with the failure loading ran into, if any; line 116
  calls it as a statement, so the caller sees the store only.
  \<open>engine_Execute\<close> gives the one value \<open>Execute\<close> returns.
\<close>

record collab =
  db_GetSettingByName :: "string \<Rightarrow> error + Setting"
  yaml_Decode :: "string \<Rightarrow> error + settings_Settings"
  ToTypesOptions :: "settings_Settings \<Rightarrow> types_Options"
  storeTemplatesFromRequest :: "string list \<Rightarrow> error + (string \<times> string list \<times> string list)"
  progress_NewStatsTicker ::
    "int \<Rightarrow> bool \<Rightarrow> bool \<Rightarrow> bool \<Rightarrow> int \<Rightarrow> progress_Progress option \<times> error option"
  Logs_Write :: "int64 \<Rightarrow> error + WriteCloser"
  parsers_NewLoader :: "ExecuterOptions \<Rightarrow> error + WorkflowLoader"
  loader_New :: "loader_Config \<Rightarrow> error + Store"
  store_Load :: "Store \<Rightarrow> Store \<times> error option"
  inputProviderFromRequest :: "string list \<Rightarrow> error + inputProvider"
  engine_Execute :: "Engine \<Rightarrow> Template list \<Rightarrow> inputProvider \<Rightarrow> error option"

subsection \<open>Service state\<close>

text \<open>
  The calls that act on something outside the function are recorded, in order, in
  \<open>events\<close>; \<open>Running\<close> is the \<open>sync.Map\<close> of the service and
  \<open>open_files\<close> the log sinks that are open.
\<close>

datatype event =
    Ev_Running_Store int64 PercentReturnFunc
  | Ev_Logs_Write int64
  | Ev_Flush bufio_Writer
  | Ev_File_Close WriteCloser
  | Ev_Running_Delete int64
  | Ev_RemoveAll string
  | Ev_Progress_Init progress_Progress int64 go_int int64
  | Ev_Execute "Template list" inputProvider "error option"
  | Ev_GetMetrics progress_Progress

record ScanService =
  Running :: "int64 \<rightharpoonup> PercentReturnFunc"
  open_files :: "WriteCloser set"
  events :: "event list"

definition emit :: "event \<Rightarrow> ScanService \<Rightarrow> ScanService" where
  "emit e s = s\<lparr>events := events s @ [e]\<rparr>"

definition Running_Store :: "int64 \<Rightarrow> PercentReturnFunc \<Rightarrow> ScanService \<Rightarrow> ScanService" where
  "Running_Store k v s = emit (Ev_Running_Store k v) (s\<lparr>Running := (Running s)(k \<mapsto> v)\<rparr>)"

definition Running_Load :: "ScanService \<Rightarrow> int64 \<Rightarrow> PercentReturnFunc option" where
  "Running_Load s k = Running s k"

definition Running_Delete :: "int64 \<Rightarrow> ScanService \<Rightarrow> ScanService" where
  "Running_Delete k s = emit (Ev_Running_Delete k) (s\<lparr>Running := (Running s)(k := None)\<rparr>)"

definition file_opened :: "WriteCloser \<Rightarrow> ScanService \<Rightarrow> ScanService" where
  "file_opened f s = s\<lparr>open_files := insert f (open_files s)\<rparr>"

definition bufio_Flush :: "bufio_Writer \<Rightarrow> ScanService \<Rightarrow> ScanService" where
  "bufio_Flush w s = emit (Ev_Flush w) s"

definition File_Close :: "WriteCloser \<Rightarrow> ScanService \<Rightarrow> ScanService" where
  "File_Close f s = emit (Ev_File_Close f) (s\<lparr>open_files := open_files s - {f}\<rparr>)"

definition os_RemoveAll :: "string \<Rightarrow> ScanService \<Rightarrow> ScanService" where
  "os_RemoveAll dir s = emit (Ev_RemoveAll dir) s"

subsection \<open>The functions of worker.go\<close>

text \<open>\<open>getSettingsForName\<close>, lines 34 to 45.\<close>

definition getSettingsForName :: "collab \<Rightarrow> string \<Rightarrow> error + types_Options" where
  "getSettingsForName c name =
     (case db_GetSettingByName c name of
        Inl err \<Rightarrow> Inl err
      | Inr setting \<Rightarrow>
          (case yaml_Decode c (Settingdata setting) of
             Inl yamlErr \<Rightarrow> Inl yamlErr
           | Inr settings \<Rightarrow> Inr (ToTypesOptions c settings)))"

text \<open>
  \<open>createExecuterOpts\<close>, lines 47 to 81. The error of \<open>NewStatsTicker\<close> is
  dropped (\<open>fst\<close>); the store into \<open>Running\<close> precedes \<open>Logs.Write\<close>.
  When \<open>ratelimit.New\<close> panics (lines 68 and 70) the function is left with the
  job registered and the log sink open.
\<close>

definition createExecuterOpts ::
  "collab \<Rightarrow> int64 \<Rightarrow> string \<Rightarrow> types_Options \<Rightarrow> ScanService
     \<Rightarrow> (error + scanContext) exit \<times> ScanService" where
  "createExecuterOpts c scanID' templatesDirectory typesOptions' s =
     (let progressImpl = fst (progress_NewStatsTicker c 0 False False False 0);
          s1 = Running_Store scanID' (makePercentReturnFunc progressImpl) s;
          s2 = emit (Ev_Logs_Write scanID') s1
      in case Logs_Write c scanID' of
           Inl err \<Rightarrow> (Returned (Inl err), s2)
         | Inr logWriter \<Rightarrow>
            (let s3 = file_opened logWriter s2;
                 buflogWriter = bufio_NewWriter logWriter;
                 outputWriter = newWrappedOutputWriter buflogWriter scanID';
                 executerOpts0 = \<lparr>Output = outputWriter,
                                  IssuesClient = None,
                                  Options = typesOptions',
                                  Progress = progressImpl,
                                  Catalog = catalog_New templatesDirectory,
                                  RateLimiter = None,
                                  WorkflowLoader = None\<rparr>
             in case (if 0 <s RateLimitMinute typesOptions'
                      then ratelimit_New (RateLimitMinute typesOptions')
                             [ratelimit_Per (60 * time_Second)]
                      else ratelimit_New (RateLimit typesOptions') []) of
                  Panicked \<Rightarrow> (Panicked, s3)
                | Returned limiter \<Rightarrow>
                   (Returned (Inr \<lparr>scanID = scanID',
                                   executer = None,
                                   store = None,
                                   logs = buflogWriter,
                                   logsFile = logWriter,
                                   typesOptions = typesOptions',
                                   executerOpts = executerOpts0\<lparr>RateLimiter := Some limiter\<rparr>\<rparr>),
                    s3)))"

text \<open>\<open>scanContext.Close\<close>, lines 96 to 102.\<close>

definition Close :: "scanContext \<Rightarrow> ScanService \<Rightarrow> ScanService" where
  "Close ctx s =
     (let s1 = bufio_Flush (logs ctx) s;
          s2 = File_Close (logsFile ctx) s1
      in Running_Delete (scanID ctx) s2)"

text \<open>
  \<open>createExecuterFromOpts\<close>, lines 105 to 123. It writes through the pointer
  \<open>scanCtx\<close>, so the context comes back with the result.
\<close>

definition createExecuterFromOpts :: "collab \<Rightarrow> scanContext \<Rightarrow> error option \<times> scanContext" where
  "createExecuterFromOpts c scanCtx =
     (case parsers_NewLoader c (executerOpts scanCtx) of
        Inl err \<Rightarrow> (Some err, scanCtx)
      | Inr workflowLoader \<Rightarrow>
         (let scanCtx1 = scanCtx\<lparr>executerOpts :=
                            (executerOpts scanCtx)\<lparr>WorkflowLoader := Some workflowLoader\<rparr>\<rparr>
          in case loader_New c (loader_NewConfig (typesOptions scanCtx1)
                                  (Catalog (executerOpts scanCtx1)) (executerOpts scanCtx1)) of
               Inl err \<Rightarrow> (Some err, scanCtx1)
             | Inr store0 \<Rightarrow>
                (let store1 = fst (store_Load c store0);
                     scanCtx2 = scanCtx1\<lparr>store := Some store1\<rparr>;
                     executer0 = core_New (typesOptions scanCtx2);
                     executer1 = SetExecuterOptions executer0 (executerOpts scanCtx2)
                 in (None, scanCtx2\<lparr>executer := Some executer1\<rparr>))))"

text \<open>
  How \<open>worker\<close> ends: it returns an error or nil, or it panics (on a nil
  receiver, or because \<open>createExecuterOpts\<close> did). The deferred calls registered
  by then run in both cases.
\<close>

datatype outcome = Return "error option" | Panic

text \<open>
  Lines 153 to 178 of \<open>worker\<close>, the part that runs with both deferred calls
  pending.
\<close>

definition worker_scan ::
  "collab \<Rightarrow> ScanRequest \<Rightarrow> scanContext \<Rightarrow> ScanService \<Rightarrow> outcome \<times> scanContext \<times> ScanService" where
  "worker_scan c req scanCtx0 s =
     (case createExecuterFromOpts c scanCtx0 of
        (Some err, scanCtx) \<Rightarrow> (Return (Some err), scanCtx, s)
      | (None, scanCtx) \<Rightarrow>
         (case store scanCtx of
            None \<Rightarrow> (Panic, scanCtx, s)
          | Some st \<Rightarrow>
             (let finalTemplates = store_Templates st @ store_Workflows st
              in case inputProviderFromRequest c (Targets req) of
                   Inl err \<Rightarrow> (Return (Some err), scanCtx, s)
                 | Inr inputProvider \<Rightarrow>
                    (case Progress (executerOpts scanCtx) of
                       None \<Rightarrow> (Panic, scanCtx, s)
                     | Some tracker \<Rightarrow>
                        (let s1 = emit (Ev_Progress_Init tracker (Count inputProvider)
                                     (of_nat (length finalTemplates))
                                     (of_nat (length finalTemplates) * Count inputProvider)) s
                         in case executer scanCtx of
                              None \<Rightarrow> (Panic, scanCtx, s1)
                            | Some engine \<Rightarrow>
                               (let s2 = emit (Ev_Execute finalTemplates inputProvider
                                            (engine_Execute c engine finalTemplates inputProvider)) s1;
                                    s3 = emit (Ev_GetMetrics tracker) s2
                                in (Return None, scanCtx, s3)))))))"

text \<open>
  \<open>worker\<close>, lines 126 to 179. The two \<open>defer\<close> statements run in reverse
  order when the function leaves: \<open>scanCtx.Close()\<close>, then
  \<open>os.RemoveAll(templatesDirectory)\<close>. While \<open>createExecuterOpts\<close> runs
  (line 147) only the second is registered.
\<close>

definition worker :: "collab \<Rightarrow> ScanRequest \<Rightarrow> ScanService \<Rightarrow> outcome \<times> ScanService" where
  "worker c req s =
     (case getSettingsForName c (Config req) of
        Inl err \<Rightarrow> (Return (Some err), s)
      | Inr typesOptions0 \<Rightarrow>
         (case storeTemplatesFromRequest c (req_Templates req) of
            Inl err \<Rightarrow> (Return (Some err), s)
          | Inr (templatesDirectory, templatesList, workflowsList) \<Rightarrow>
             (let typesOptions1 = typesOptions0\<lparr>TemplatesDirectory := templatesDirectory,
                                                Templates := templatesList,
                                                Workflows := workflowsList\<rparr>;
                  (res, s') =
                    (case createExecuterOpts c (ScanID req) templatesDirectory typesOptions1 s of
                       (Panicked, s1) \<Rightarrow> (Panic, s1)
                     | (Returned (Inl err), s1) \<Rightarrow> (Return (Some err), s1)
                     | (Returned (Inr scanCtx0), s1) \<Rightarrow>
                        (case worker_scan c req scanCtx0 s1 of
                           (res, scanCtx, s2) \<Rightarrow> (res, Close scanCtx s2)))
              in (res, os_RemoveAll templatesDirectory s'))))"

subsection \<open>A concrete run\<close>

text \<open>
  A collaborator set for one job: profile \<open>default\<close> with a rate limit of 10 per
  second, two templates and three targets. The engine reports a failure. The
  variants below change one collaborator each.
\<close>

definition example_collab :: collab where
  "example_collab =
     \<lparr>db_GetSettingByName =
        (\<lambda>name. if name = ''default'' then Inr \<lparr>Settingdata = ''rate-limit: 10''\<rparr>
                 else Inl (Error ''no rows in result set'')),
      yaml_Decode =
        (\<lambda>doc. if doc = ''rate-limit: 10'' then Inr (Settings 10 0)
                else Inl (Error ''yaml: unmarshal errors'')),
      ToTypesOptions =
        (\<lambda>st. case st of Settings r m \<Rightarrow>
           \<lparr>RateLimit = r, RateLimitMinute = m, TemplatesDirectory = [],
            Templates = [], Workflows = []\<rparr>),
      storeTemplatesFromRequest = (\<lambda>refs. Inr (''/tmp/nuclei-7'', refs, [])),
      progress_NewStatsTicker =
        (\<lambda>duration active outputJSON metrics port. (Some (StatsTicker 0), None)),
      Logs_Write = (\<lambda>scanID. Inr (LogFile (unat scanID))),
      parsers_NewLoader = (\<lambda>opts. Inr (Loader 0)),
      loader_New = (\<lambda>cfg. Inr \<lparr>store_Templates = [], store_Workflows = []\<rparr>),
      store_Load =
        (\<lambda>st. (\<lparr>store_Templates = [Template ''cves/a.yaml'', Template ''cves/b.yaml''],
                 store_Workflows = []\<rparr>, None)),
      inputProviderFromRequest = (\<lambda>targets. Inr \<lparr>Count = of_nat (length targets)\<rparr>),
      engine_Execute = (\<lambda>engine templates input. Some (Error ''execution failed''))\<rparr>"

definition example_req :: ScanRequest where
  "example_req =
     \<lparr>ScanID = 7, Config = ''default'',
      req_Templates = [''cves/a.yaml'', ''cves/b.yaml''],
      Targets = [''a.example'', ''b.example'', ''c.example'']\<rparr>"

definition idle_service :: ScanService where
  "idle_service = \<lparr>Running = Map.empty, open_files = {}, events = []\<rparr>"

definition example_options :: types_Options where
  "example_options =
     \<lparr>RateLimit = 10, RateLimitMinute = 0, TemplatesDirectory = ''/tmp/nuclei-7'',
      Templates = [''cves/a.yaml'', ''cves/b.yaml''], Workflows = []\<rparr>"

text \<open>The context \<open>createExecuterOpts\<close> builds for the example job.\<close>

definition example_scanCtx :: scanContext where
  "example_scanCtx =
     \<lparr>scanID = 7, executer = None, store = None,
      logs = bufio_NewWriter (LogFile 7), logsFile = LogFile 7,
      typesOptions = example_options,
      executerOpts =
        \<lparr>Output = newWrappedOutputWriter (bufio_NewWriter (LogFile 7)) 7,
         IssuesClient = None, Options = example_options,
         Progress = Some (StatsTicker 0), Catalog = catalog_New ''/tmp/nuclei-7'',
         RateLimiter = Some (Limiter 10 []), WorkflowLoader = None\<rparr>\<rparr>"

text \<open>The log sink cannot be opened.\<close>

definition log_failure_collab :: collab where
  "log_failure_collab =
     example_collab\<lparr>Logs_Write := (\<lambda>scanID. Inl (Error ''open: permission denied''))\<rparr>"

text \<open>Loading runs into a failure; both constructors succeed.\<close>

definition load_failure_collab :: collab where
  "load_failure_collab =
     example_collab\<lparr>store_Load :=
       (\<lambda>st. (\<lparr>store_Templates = [], store_Workflows = []\<rparr>,
              Some (Error ''could not load templates'')))\<rparr>"

text \<open>The store cannot be constructed.\<close>

definition store_failure_collab :: collab where
  "store_failure_collab =
     example_collab\<lparr>loader_New := (\<lambda>cfg. Inl (Error ''could not create loader store''))\<rparr>"

text \<open>The tracker constructor fails and hands back the nil interface.\<close>

definition ticker_failure_collab :: collab where
  "ticker_failure_collab =
     example_collab\<lparr>progress_NewStatsTicker :=
       (\<lambda>duration active outputJSON metrics port. (None, Some (Error ''clistats'')))\<rparr>"

text \<open>The per-minute limit is set: 60 per minute, and no per-second limit.\<close>

definition minute_options :: types_Options where
  "minute_options = example_options\<lparr>RateLimit := 0, RateLimitMinute := 60\<rparr>"

definition minute_scanCtx :: scanContext where
  "minute_scanCtx =
     example_scanCtx
       \<lparr>typesOptions := minute_options,
        executerOpts := (executerOpts example_scanCtx)
          \<lparr>Options := minute_options,
           RateLimiter := Some (Limiter 60 [ratelimit_Per (60 * time_Second)])\<rparr>\<rparr>"

text \<open>
  Neither limit is set: the options of a profile that leaves \<open>rate-limit\<close> at
  0, and a collaborator set whose profile \<open>default\<close> decodes to them.
\<close>

definition zero_options :: types_Options where
  "zero_options = example_options\<lparr>RateLimit := 0, RateLimitMinute := 0\<rparr>"

definition zero_rate_collab :: collab where
  "zero_rate_collab = example_collab\<lparr>yaml_Decode := (\<lambda>doc. Inr (Settings 0 0))\<rparr>"

text \<open>What \<open>getSettingsForName\<close> gives for the profile \<open>default\<close>.\<close>

definition example_settings_options :: types_Options where
  "example_settings_options =
     \<lparr>RateLimit = 10, RateLimitMinute = 0, TemplatesDirectory = [], Templates = [], Workflows = []\<rparr>"

text \<open>The service once the example job's context is created, and the context once populated.\<close>

definition created_service :: ScanService where
  "created_service =
     \<lparr>Running = [7 \<mapsto> PercentReturnFunc (Some (StatsTicker 0))], open_files = {LogFile 7},
      events = [Ev_Running_Store 7 (PercentReturnFunc (Some (StatsTicker 0))), Ev_Logs_Write 7]\<rparr>"

definition example_populated :: scanContext where
  "example_populated =
     example_scanCtx
       \<lparr>executer := Some \<lparr>engine_options = example_options,
                           engine_executerOptions =
                             Some ((executerOpts example_scanCtx)\<lparr>WorkflowLoader := Some (Loader 0)\<rparr>)\<rparr>,
        store := Some \<lparr>store_Templates = [Template ''cves/a.yaml'', Template ''cves/b.yaml''],
                       store_Workflows = []\<rparr>,
        executerOpts := (executerOpts example_scanCtx)\<lparr>WorkflowLoader := Some (Loader 0)\<rparr>\<rparr>"

section \<open>Properties\<close>

subsection \<open>Unfolding lemmas\<close>

lemmas ex_defs = example_collab_def example_req_def idle_service_def example_options_def
  example_scanCtx_def log_failure_collab_def load_failure_collab_def store_failure_collab_def
  ticker_failure_collab_def minute_options_def minute_scanCtx_def zero_options_def
  zero_rate_collab_def example_settings_options_def
  created_service_def example_populated_def
lemmas st_defs = Running_Store_def Running_Delete_def Running_Load_def emit_def file_opened_def
  bufio_Flush_def File_Close_def os_RemoveAll_def makePercentReturnFunc_def

lemma createExecuterOpts_Inr:
  assumes "createExecuterOpts c sid dir opts s = (Returned (Inr ctx), s')"
  shows "Logs_Write c sid = Inr (logsFile ctx)
     \<and> scanID ctx = sid
     \<and> logs ctx = bufio_NewWriter (logsFile ctx)
     \<and> typesOptions ctx = opts
     \<and> Progress (executerOpts ctx) = fst (progress_NewStatsTicker c 0 False False False 0)
     \<and> Running s' = (Running s)(sid \<mapsto> makePercentReturnFunc (Progress (executerOpts ctx)))
     \<and> open_files s' = insert (logsFile ctx) (open_files s)
     \<and> events s' = events s @ [Ev_Running_Store sid (makePercentReturnFunc (Progress (executerOpts ctx))),
                               Ev_Logs_Write sid]"
  using assms
  by (auto simp add: createExecuterOpts_def st_defs Let_def split: sum.splits exit.splits)

text \<open>
  The limiter of a created context: one branch, fed by one of the two values. A
  context is created exactly when the log sink opens and the chosen rate is not 0.
\<close>

lemma createExecuterOpts_limiter:
  assumes "createExecuterOpts c sid dir opts s = (Returned (Inr ctx), s')"
  shows "(0 <s RateLimitMinute opts \<longrightarrow>
            RateLimiter (executerOpts ctx)
              = Some (Limiter (RateLimitMinute opts) [ratelimit_Per (60 * time_Second)]))
       \<and> (\<not> 0 <s RateLimitMinute opts \<longrightarrow>
            RateLimit opts \<noteq> 0
            \<and> RateLimiter (executerOpts ctx) = Some (Limiter (RateLimit opts) []))
       \<and> (\<exists>lim. RateLimiter (executerOpts ctx) = Some lim
            \<and> limiter_rate lim = (if 0 <s RateLimitMinute opts then RateLimitMinute opts else RateLimit opts)
            \<and> limiter_per lim = (if 0 <s RateLimitMinute opts then 60 * time_Second else time_Second))"
  using assms
  by (auto simp add: createExecuterOpts_def ratelimit_New_def Let_def
        split: sum.splits exit.splits if_splits)

lemma createExecuterOpts_exits:
  "((\<exists>ctx. fst (createExecuterOpts c sid dir opts s) = Returned (Inr ctx))
        \<longleftrightarrow> (\<exists>f. Logs_Write c sid = Inr f)
          \<and> (if 0 <s RateLimitMinute opts then RateLimitMinute opts else RateLimit opts) \<noteq> 0)
   \<and> (fst (createExecuterOpts c sid dir opts s) = Panicked
        \<longleftrightarrow> (\<exists>f. Logs_Write c sid = Inr f)
          \<and> (if 0 <s RateLimitMinute opts then RateLimitMinute opts else RateLimit opts) = 0)"
  by (auto simp add: createExecuterOpts_def ratelimit_New_def Let_def
        split: sum.splits exit.splits if_splits)

text \<open>
  Whatever way \<open>createExecuterOpts\<close> is left, the accessor over the tracker
  that \<open>NewStatsTicker\<close> returned is registered, and the store into
  \<open>Running\<close> came before \<open>Logs.Write\<close>. The error of
  \<open>NewStatsTicker\<close> plays no part; an error is returned exactly when
  \<open>Logs.Write\<close> gives one.
\<close>

lemma createExecuterOpts_registers_first:
  assumes "progress_NewStatsTicker c 0 False False False 0 = (tracker, tickerErr)"
  shows "((fst (createExecuterOpts c sid dir opts s) = Returned (Inl err)) = (Logs_Write c sid = Inl err))
     \<and> Running_Load (snd (createExecuterOpts c sid dir opts s)) sid = Some (PercentReturnFunc tracker)
     \<and> events (snd (createExecuterOpts c sid dir opts s))
         = events s @ [Ev_Running_Store sid (PercentReturnFunc tracker), Ev_Logs_Write sid]"
  using assms
  by (auto simp add: createExecuterOpts_def st_defs Let_def split: sum.splits exit.splits)

lemma createExecuterFromOpts_keeps:
  assumes "createExecuterFromOpts c ctx0 = (r, ctx)"
  shows "scanID ctx = scanID ctx0 \<and> logs ctx = logs ctx0 \<and> logsFile ctx = logsFile ctx0
     \<and> Progress (executerOpts ctx) = Progress (executerOpts ctx0)"
  using assms
  by (auto simp add: createExecuterFromOpts_def Let_def split: sum.splits)

lemma createExecuterFromOpts_None:
  assumes "createExecuterFromOpts c ctx0 = (None, ctx)"
  shows "\<exists>wl st0.
       parsers_NewLoader c (executerOpts ctx0) = Inr wl
     \<and> loader_New c (loader_NewConfig (typesOptions ctx0) (Catalog (executerOpts ctx0))
                       ((executerOpts ctx0)\<lparr>WorkflowLoader := Some wl\<rparr>)) = Inr st0
     \<and> store ctx = Some (fst (store_Load c st0))
     \<and> executer ctx = Some (SetExecuterOptions (core_New (typesOptions ctx0))
                               ((executerOpts ctx0)\<lparr>WorkflowLoader := Some wl\<rparr>))"
  using assms
  by (auto simp add: createExecuterFromOpts_def Let_def split: sum.splits)

lemma worker_after_create:
  assumes "getSettingsForName c (Config req) = Inr opts0"
      and "storeTemplatesFromRequest c (req_Templates req) = Inr (dir, tmpls, wfs)"
      and "createExecuterOpts c (ScanID req) dir
             (opts0\<lparr>TemplatesDirectory := dir, Templates := tmpls, Workflows := wfs\<rparr>) s = (Returned (Inr ctx0), s1)"
      and "worker_scan c req ctx0 s1 = (res, ctx, s2)"
  shows "worker c req s = (res, os_RemoveAll dir (Close ctx s2))"
  using assms by (simp add: worker_def Let_def)

lemma worker_scan_populate_failure:
  assumes "createExecuterFromOpts c ctx0 = (Some err, ctx)"
  shows "worker_scan c req ctx0 s1 = (Return (Some err), ctx, s1)"
  using assms by (simp add: worker_scan_def)

lemma worker_scan_executes:
  assumes "createExecuterFromOpts c ctx0 = (None, ctx)"
      and "store ctx = Some st"
      and "executer ctx = Some engine"
      and "inputProviderFromRequest c (Targets req) = Inr ip"
      and "Progress (executerOpts ctx) = Some tracker"
  shows "worker_scan c req ctx0 s1 =
     (Return None, ctx,
      s1\<lparr>events := events s1 @
        [Ev_Progress_Init tracker (Count ip)
           (of_nat (length (store_Templates st @ store_Workflows st)))
           (of_nat (length (store_Templates st @ store_Workflows st)) * Count ip),
         Ev_Execute (store_Templates st @ store_Workflows st) ip
           (engine_Execute c engine (store_Templates st @ store_Workflows st) ip),
         Ev_GetMetrics tracker]\<rparr>)"
  using assms by (simp add: worker_scan_def Let_def emit_def)

text \<open>The signed reading of Go's wrapping product, when the product fits.\<close>

lemma sint_of_nat_mult:
  fixes c :: "64 word"
  assumes "- (2 ^ 63) \<le> int n * sint c" and "int n * sint c < 2 ^ 63"
  shows "sint (of_nat n * c) = int n * sint c"
proof -
  have "of_nat n * c = (word_of_int (int n * sint c) :: 64 word)"
    by simp
  then have "sint (of_nat n * c) = signed_take_bit 63 (int n * sint c)"
    by (simp only: sint_sbintrunc') simp
  with assms show ?thesis
    by (simp add: signed_take_bit_int_eq_self)
qed

lemma sint_of_nat_len:
  assumes "n < 2 ^ 63"
  shows "sint (of_nat n :: 64 word) = int n"
  using sint_of_nat_mult[of n 1] assms by simp

subsection \<open>The concrete run, step by step\<close>

lemma example_settings:
  "getSettingsForName (example_collab\<lparr>loader_New := f\<rparr>) (Config example_req) = Inr example_settings_options"
  "getSettingsForName example_collab (Config example_req) = Inr example_settings_options"
  by (simp_all add: getSettingsForName_def ex_defs)

lemma example_stored:
  "storeTemplatesFromRequest (example_collab\<lparr>loader_New := f\<rparr>) (req_Templates example_req)
     = Inr (''/tmp/nuclei-7'', [''cves/a.yaml'', ''cves/b.yaml''], [])"
  "storeTemplatesFromRequest example_collab (req_Templates example_req)
     = Inr (''/tmp/nuclei-7'', [''cves/a.yaml'', ''cves/b.yaml''], [])"
  by (simp_all add: ex_defs)

lemma example_created:
  "createExecuterOpts (example_collab\<lparr>loader_New := f\<rparr>) (ScanID example_req) ''/tmp/nuclei-7''
     (example_settings_options\<lparr>TemplatesDirectory := ''/tmp/nuclei-7'',
        Templates := [''cves/a.yaml'', ''cves/b.yaml''], Workflows := []\<rparr>) idle_service
     = (Returned (Inr example_scanCtx), created_service)"
  "createExecuterOpts example_collab (ScanID example_req) ''/tmp/nuclei-7''
     (example_settings_options\<lparr>TemplatesDirectory := ''/tmp/nuclei-7'',
        Templates := [''cves/a.yaml'', ''cves/b.yaml''], Workflows := []\<rparr>) idle_service
     = (Returned (Inr example_scanCtx), created_service)"
  by (simp_all add: createExecuterOpts_def ratelimit_New_def ex_defs st_defs Let_def word_sless_alt)

lemma example_populate:
  "createExecuterFromOpts example_collab example_scanCtx = (None, example_populated)"
  by (simp add: createExecuterFromOpts_def ex_defs Let_def
        core_New_def SetExecuterOptions_def)

lemma example_input:
  "inputProviderFromRequest example_collab (Targets example_req) = Inr \<lparr>Count = 3\<rparr>"
  by (simp add: ex_defs)

text \<open>The whole run of a job that gets as far as the engine.\<close>

lemma worker_executes:
  assumes "getSettingsForName c (Config req) = Inr opts0"
      and "storeTemplatesFromRequest c (req_Templates req) = Inr (dir, tmpls, wfs)"
      and "createExecuterOpts c (ScanID req) dir
             (opts0\<lparr>TemplatesDirectory := dir, Templates := tmpls, Workflows := wfs\<rparr>) s = (Returned (Inr ctx0), s1)"
      and "createExecuterFromOpts c ctx0 = (None, ctx)"
      and "store ctx = Some st"
      and "executer ctx = Some engine"
      and "inputProviderFromRequest c (Targets req) = Inr ip"
      and "Progress (executerOpts ctx0) = Some tracker"
  shows "fst (worker c req s) = Return None
       \<and> events (snd (worker c req s)) = events s1 @
           [Ev_Progress_Init tracker (Count ip)
              (of_nat (length (store_Templates st @ store_Workflows st)))
              (of_nat (length (store_Templates st @ store_Workflows st)) * Count ip),
            Ev_Execute (store_Templates st @ store_Workflows st) ip
              (engine_Execute c engine (store_Templates st @ store_Workflows st) ip),
            Ev_GetMetrics tracker,
            Ev_Flush (logs ctx0), Ev_File_Close (logsFile ctx0),
            Ev_Running_Delete (ScanID req), Ev_RemoveAll dir]"
proof -
  note k = createExecuterFromOpts_keeps [OF assms(4)]
  from k assms(8) have t: "Progress (executerOpts ctx) = Some tracker" by simp
  note o = createExecuterOpts_Inr [OF assms(3)]
  note ws = worker_scan_executes [OF assms(4) assms(5) assms(6) assms(7) t, of s1]
  note w = worker_after_create [OF assms(1) assms(2) assms(3) ws]
  show ?thesis
    using k o by (simp add: w Close_def Let_def st_defs)
qed

text \<open>The two limiters of the concrete options: 60 per minute, and 10 per second.\<close>

lemma example_limiters:
  "fst (createExecuterOpts example_collab 7 ''/tmp/nuclei-7'' minute_options idle_service)
     = Returned (Inr minute_scanCtx)
   \<and> fst (createExecuterOpts example_collab 7 ''/tmp/nuclei-7'' example_options idle_service)
       = Returned (Inr example_scanCtx)"
  by (simp add: createExecuterOpts_def ratelimit_New_def ex_defs st_defs Let_def word_sless_alt)

text \<open>
  The run on a profile with both rate values 0: the panic leaves the job registered
  and its log sink open; only the working directory is removed.
\<close>

lemma worker_zero_rate_panics:
  "worker zero_rate_collab example_req idle_service
     = (Panic,
        \<lparr>Running = [7 \<mapsto> PercentReturnFunc (Some (StatsTicker 0))], open_files = {LogFile 7},
         events = [Ev_Running_Store 7 (PercentReturnFunc (Some (StatsTicker 0))), Ev_Logs_Write 7,
                   Ev_RemoveAll ''/tmp/nuclei-7'']\<rparr>)"
  by (simp add: worker_def getSettingsForName_def createExecuterOpts_def ratelimit_New_def
        ex_defs st_defs Let_def word_sless_alt)

subsection \<open>Claims\<close>

text \<open>
  C1. The claim: on every exit path of \<open>worker\<close> the job id is gone from
  \<open>Running\<close> and the log sink is not open. The code at the exit through a
  failing \<open>Logs.Write\<close>: \<open>createExecuterOpts\<close> has stored the accessor (line 50)
  and returns the error (line 54); \<open>worker\<close> returns it (line 149) before
  \<open>defer scanCtx.Close()\<close> is reached, so the entry for job 7, absent before the
  run, is still in \<open>Running\<close> after it. No sink was opened on this path.
\<close>

theorem worker_log_open_failure_leaks_entry:
  "Running_Load idle_service (ScanID example_req) = None
   \<and> fst (worker log_failure_collab example_req idle_service)
       = Return (Some (Error ''open: permission denied''))
   \<and> Running_Load (snd (worker log_failure_collab example_req idle_service)) (ScanID example_req)
       = Some (PercentReturnFunc (Some (StatsTicker 0)))
   \<and> events (snd (worker log_failure_collab example_req idle_service))
       = [Ev_Running_Store 7 (PercentReturnFunc (Some (StatsTicker 0))), Ev_Logs_Write 7,
          Ev_RemoveAll ''/tmp/nuclei-7'']"
  by (simp add: worker_def getSettingsForName_def createExecuterOpts_def ex_defs st_defs Let_def)

text \<open>
  C2, as stated, fails: loading runs into a failure in \<open>load_failure_collab\<close>,
  both constructors succeed, and \<open>createExecuterFromOpts\<close> returns nil.
\<close>

theorem load_failure_not_reported:
  "loader_New load_failure_collab
     (loader_NewConfig (typesOptions example_scanCtx) (Catalog (executerOpts example_scanCtx))
        ((executerOpts example_scanCtx)\<lparr>WorkflowLoader := Some (Loader 0)\<rparr>))
     = Inr \<lparr>store_Templates = [], store_Workflows = []\<rparr>
   \<and> snd (store_Load load_failure_collab \<lparr>store_Templates = [], store_Workflows = []\<rparr>)
       = Some (Error ''could not load templates'')
   \<and> fst (createExecuterFromOpts load_failure_collab example_scanCtx) = None"
  by (simp add: createExecuterFromOpts_def ex_defs Let_def)

text \<open>
  C2, amended. \<open>createExecuterFromOpts\<close> returns the error of
  \<open>parsers.NewLoader\<close> when the workflow loader cannot be constructed and the
  error of \<open>loader.New\<close> when the store cannot be constructed. It returns nil
  exactly when both constructions succeed, and then the context holds the store as
  \<open>Load\<close> left it; a failure inside \<open>Load\<close> is not looked at.
\<close>

theorem createExecuterFromOpts_fails_on_construction_only:
  "(parsers_NewLoader c (executerOpts ctx) = Inl err
      \<longrightarrow> fst (createExecuterFromOpts c ctx) = Some err)
   \<and> (parsers_NewLoader c (executerOpts ctx) = Inr wl
      \<and> loader_New c (loader_NewConfig (typesOptions ctx) (Catalog (executerOpts ctx))
                       ((executerOpts ctx)\<lparr>WorkflowLoader := Some wl\<rparr>)) = Inl err
      \<longrightarrow> fst (createExecuterFromOpts c ctx) = Some err)
   \<and> (parsers_NewLoader c (executerOpts ctx) = Inr wl
      \<and> loader_New c (loader_NewConfig (typesOptions ctx) (Catalog (executerOpts ctx))
                       ((executerOpts ctx)\<lparr>WorkflowLoader := Some wl\<rparr>)) = Inr st0
      \<longrightarrow> fst (createExecuterFromOpts c ctx) = None
        \<and> store (snd (createExecuterFromOpts c ctx)) = Some (fst (store_Load c st0)))
   \<and> (fst (createExecuterFromOpts c ctx) = None
      \<longrightarrow> (\<exists>wl' st0'. parsers_NewLoader c (executerOpts ctx) = Inr wl'
            \<and> loader_New c (loader_NewConfig (typesOptions ctx) (Catalog (executerOpts ctx))
                       ((executerOpts ctx)\<lparr>WorkflowLoader := Some wl'\<rparr>)) = Inr st0'))"
  by (auto simp add: createExecuterFromOpts_def Let_def split: sum.splits)

theorem createExecuterFromOpts_fails_on_construction_only_witness:
  "fst (createExecuterFromOpts store_failure_collab example_scanCtx)
     = Some (Error ''could not create loader store'')
   \<and> fst (createExecuterFromOpts load_failure_collab example_scanCtx) = None
   \<and> store (snd (createExecuterFromOpts load_failure_collab example_scanCtx))
       = Some \<lparr>store_Templates = [], store_Workflows = []\<rparr>"
proof -
  have a: "parsers_NewLoader store_failure_collab (executerOpts example_scanCtx) = Inr (Loader 0)"
    by (simp add: ex_defs)
  have b: "loader_New store_failure_collab
             (loader_NewConfig (typesOptions example_scanCtx) (Catalog (executerOpts example_scanCtx))
                ((executerOpts example_scanCtx)\<lparr>WorkflowLoader := Some (Loader 0)\<rparr>))
           = Inl (Error ''could not create loader store'')"
    by (simp add: ex_defs)
  have a': "parsers_NewLoader load_failure_collab (executerOpts example_scanCtx) = Inr (Loader 0)"
    by (simp add: ex_defs)
  have b': "loader_New load_failure_collab
             (loader_NewConfig (typesOptions example_scanCtx) (Catalog (executerOpts example_scanCtx))
                ((executerOpts example_scanCtx)\<lparr>WorkflowLoader := Some (Loader 0)\<rparr>))
           = Inr \<lparr>store_Templates = [], store_Workflows = []\<rparr>"
    by (simp add: ex_defs)
  have l: "fst (store_Load load_failure_collab \<lparr>store_Templates = [], store_Workflows = []\<rparr>)
           = \<lparr>store_Templates = [], store_Workflows = []\<rparr>"
    by (simp add: ex_defs)
  from createExecuterFromOpts_fails_on_construction_only
         [of store_failure_collab example_scanCtx "Error ''could not create loader store''" "Loader 0"]
       createExecuterFromOpts_fails_on_construction_only
         [of load_failure_collab example_scanCtx _ "Loader 0" "\<lparr>store_Templates = [], store_Workflows = []\<rparr>"]
       a b a' b' l
  show ?thesis by simp
qed

text \<open>
  C3. The claim: every options record gets a limiter, from the per-minute value when
  that is greater than zero and from the per-second value otherwise. The code at a
  record with both values 0: the else branch (line 70) calls \<open>ratelimit.New(0)\<close>,
  which panics, so no limiter is constructed and \<open>createExecuterOpts\<close> does
  not return; \<open>worker\<close> panics on a profile that decodes to such a record.
\<close>

theorem zero_rate_constructs_no_limiter:
  "RateLimitMinute zero_options = 0
   \<and> RateLimit zero_options = 0
   \<and> ratelimit_New (RateLimit zero_options) [] = Panicked
   \<and> fst (createExecuterOpts example_collab 7 ''/tmp/nuclei-7'' zero_options idle_service)
       = Panicked
   \<and> fst (worker zero_rate_collab example_req idle_service) = Panic"
  by (simp add: worker_def getSettingsForName_def createExecuterOpts_def ratelimit_New_def
        ex_defs st_defs Let_def word_sless_alt)

text \<open>
  C4. When the context was created and \<open>createExecuterFromOpts\<close> then fails,
  \<open>worker\<close> returns that error, and the state it returns has the context
  closed: the log sink, open after creation, is closed and the job id, registered
  after creation, is no longer in \<open>Running\<close>. The calls made after creation
  are flush, close, delete and the removal of the working directory.
\<close>

theorem populate_failure_still_closes:
  assumes "getSettingsForName c (Config req) = Inr opts0"
      and "storeTemplatesFromRequest c (req_Templates req) = Inr (dir, tmpls, wfs)"
      and "createExecuterOpts c (ScanID req) dir
             (opts0\<lparr>TemplatesDirectory := dir, Templates := tmpls, Workflows := wfs\<rparr>) s = (Returned (Inr ctx0), s1)"
      and "createExecuterFromOpts c ctx0 = (Some err, ctx)"
  shows "fst (worker c req s) = Return (Some err)
       \<and> logsFile ctx0 \<in> open_files s1
       \<and> Running_Load s1 (ScanID req) \<noteq> None
       \<and> logsFile ctx0 \<notin> open_files (snd (worker c req s))
       \<and> Running_Load (snd (worker c req s)) (ScanID req) = None
       \<and> events (snd (worker c req s))
           = events s1 @ [Ev_Flush (logs ctx0), Ev_File_Close (logsFile ctx0),
                          Ev_Running_Delete (ScanID req), Ev_RemoveAll dir]"
proof -
  have w: "worker c req s = (Return (Some err), os_RemoveAll dir (Close ctx s1))"
    using assms by (simp add: worker_after_create worker_scan_populate_failure)
  note k = createExecuterFromOpts_keeps [OF assms(4)]
  note o = createExecuterOpts_Inr [OF assms(3)]
  show ?thesis
    using k o by (simp add: w Close_def Let_def st_defs)
qed

theorem populate_failure_still_closes_witness:
  "createExecuterFromOpts store_failure_collab example_scanCtx
     = (Some (Error ''could not create loader store''),
        example_scanCtx\<lparr>executerOpts := (executerOpts example_scanCtx)\<lparr>WorkflowLoader := Some (Loader 0)\<rparr>\<rparr>)
   \<and> fst (worker store_failure_collab example_req idle_service)
       = Return (Some (Error ''could not create loader store''))
   \<and> LogFile 7 \<in> open_files created_service
   \<and> LogFile 7 \<notin> open_files (snd (worker store_failure_collab example_req idle_service))
   \<and> Running_Load (snd (worker store_failure_collab example_req idle_service)) 7 = None"
proof -
  have p: "createExecuterFromOpts store_failure_collab example_scanCtx
     = (Some (Error ''could not create loader store''),
        example_scanCtx\<lparr>executerOpts := (executerOpts example_scanCtx)\<lparr>WorkflowLoader := Some (Loader 0)\<rparr>\<rparr>)"
    by (simp add: createExecuterFromOpts_def ex_defs Let_def)
  have i: "ScanID example_req = 7" "logsFile example_scanCtx = LogFile 7"
    by (simp_all add: ex_defs)
  from populate_failure_still_closes
         [OF example_settings(1) example_stored(1) example_created(1)
             p [unfolded store_failure_collab_def], folded store_failure_collab_def]
       p i
  show ?thesis by simp
qed

text \<open>
  C5. Right after \<open>createExecuterOpts\<close> has returned a context, looking the job
  id up in \<open>Running\<close> gives the accessor made from the context's progress
  tracker; right after \<open>Close\<close> of the context the lookup finds nothing.
\<close>

theorem registry_query_after_Created_and_Closed:
  "(createExecuterOpts c sid dir opts s = (Returned (Inr ctx), s')
      \<longrightarrow> scanID ctx = sid
        \<and> Running_Load s' sid = Some (makePercentReturnFunc (Progress (executerOpts ctx))))
   \<and> Running_Load (Close ctx s'') (scanID ctx) = None"
  using createExecuterOpts_Inr [of c sid dir opts s ctx s']
  by (simp add: Close_def Let_def st_defs)

theorem registry_query_after_Created_and_Closed_witness:
  "createExecuterOpts example_collab 7 ''/tmp/nuclei-7'' example_options idle_service
     = (Returned (Inr example_scanCtx), created_service)
   \<and> Running_Load created_service 7 = Some (PercentReturnFunc (Some (StatsTicker 0)))
   \<and> Running_Load (Close example_scanCtx created_service) 7 = None"
proof -
  have h: "createExecuterOpts example_collab 7 ''/tmp/nuclei-7'' example_options idle_service
     = (Returned (Inr example_scanCtx), created_service)"
    by (simp add: createExecuterOpts_def ratelimit_New_def ex_defs st_defs Let_def word_sless_alt)
  have i: "scanID example_scanCtx = 7" "Progress (executerOpts example_scanCtx) = Some (StatsTicker 0)"
    by (simp_all add: ex_defs)
  from registry_query_after_Created_and_Closed
         [of example_collab 7 "''/tmp/nuclei-7''" example_options idle_service
             example_scanCtx created_service created_service] h i
  show ?thesis by (simp add: makePercentReturnFunc_def)
qed

text \<open>
  C6. \<open>Close\<close> does three things, in this order: it flushes the buffered log
  writer, closes the log sink and deletes the scan id from \<open>Running\<close>. The
  sink is then no longer open and the id no longer registered; nothing else changes.
\<close>

theorem Close_flush_close_unregister:
  "events (Close ctx s) =
     events s @ [Ev_Flush (logs ctx), Ev_File_Close (logsFile ctx), Ev_Running_Delete (scanID ctx)]
   \<and> open_files (Close ctx s) = open_files s - {logsFile ctx}
   \<and> Running (Close ctx s) = (Running s)(scanID ctx := None)"
  by (simp add: Close_def Let_def st_defs)

text \<open>
  C7. When the settings profile cannot be resolved, because the database lookup
  fails or because the stored document does not decode, \<open>worker\<close> returns that
  error and leaves the service as it was. A job id that was not in \<open>Running\<close>
  before the call is not in it afterwards.
\<close>

theorem config_failure_leaves_registry_alone:
  assumes "db_GetSettingByName c (Config req) = Inl err
         \<or> (\<exists>setting. db_GetSettingByName c (Config req) = Inr setting
                    \<and> yaml_Decode c (Settingdata setting) = Inl err)"
  shows "fst (worker c req s) = Return (Some err)
       \<and> snd (worker c req s) = s
       \<and> (Running_Load s (ScanID req) = None
            \<longrightarrow> Running_Load (snd (worker c req s)) (ScanID req) = None)"
proof -
  from assms have "getSettingsForName c (Config req) = Inl err"
    by (auto simp add: getSettingsForName_def)
  then show ?thesis by (simp add: worker_def)
qed

theorem config_failure_leaves_registry_alone_witness:
  "db_GetSettingByName example_collab ''missing'' = Inl (Error ''no rows in result set'')
   \<and> Running_Load idle_service 7 = None
   \<and> fst (worker example_collab (example_req\<lparr>Config := ''missing''\<rparr>) idle_service)
       = Return (Some (Error ''no rows in result set''))
   \<and> Running_Load (snd (worker example_collab (example_req\<lparr>Config := ''missing''\<rparr>) idle_service)) 7
       = None"
proof -
  have h: "db_GetSettingByName example_collab (Config (example_req\<lparr>Config := ''missing''\<rparr>))
             = Inl (Error ''no rows in result set'')"
    by (simp add: ex_defs)
  have r: "Running_Load idle_service 7 = None" by (simp add: ex_defs st_defs)
  have i: "ScanID (example_req\<lparr>Config := ''missing''\<rparr>) = 7" by (simp add: ex_defs)
  from config_failure_leaves_registry_alone
         [of example_collab "example_req\<lparr>Config := ''missing''\<rparr>" "Error ''no rows in result set''"
             idle_service] h r i
  show ?thesis by simp
qed

text \<open>
  C8. For a job that gets as far as the engine, the first call after the context is
  created is \<open>Progress.Init\<close> with the target count, the length of the execution
  list and their product, and the next call is \<open>Execute\<close> on that list. The
  list is the store's templates followed by its workflows. The product is Go's, on
  64-bit integers; read as integers, the second argument is the length and the
  third is the length times the count whenever these fit into 64 bits.
\<close>

theorem progress_Init_before_Execute:
  assumes "getSettingsForName c (Config req) = Inr opts0"
      and "storeTemplatesFromRequest c (req_Templates req) = Inr (dir, tmpls, wfs)"
      and "createExecuterOpts c (ScanID req) dir
             (opts0\<lparr>TemplatesDirectory := dir, Templates := tmpls, Workflows := wfs\<rparr>) s = (Returned (Inr ctx0), s1)"
      and "createExecuterFromOpts c ctx0 = (None, ctx)"
      and "inputProviderFromRequest c (Targets req) = Inr ip"
      and "Progress (executerOpts ctx0) = Some tracker"
  shows "\<exists>st engine finalTemplates.
           store ctx = Some st \<and> executer ctx = Some engine
         \<and> finalTemplates = store_Templates st @ store_Workflows st
         \<and> events (snd (worker c req s)) = events s1 @
             [Ev_Progress_Init tracker (Count ip) (of_nat (length finalTemplates))
                (of_nat (length finalTemplates) * Count ip),
              Ev_Execute finalTemplates ip (engine_Execute c engine finalTemplates ip),
              Ev_GetMetrics tracker,
              Ev_Flush (logs ctx0), Ev_File_Close (logsFile ctx0),
              Ev_Running_Delete (ScanID req), Ev_RemoveAll dir]
         \<and> (length finalTemplates < 2 ^ 63
              \<longrightarrow> sint (of_nat (length finalTemplates) :: go_int) = int (length finalTemplates))
         \<and> (- (2 ^ 63) \<le> int (length finalTemplates) * sint (Count ip)
              \<and> int (length finalTemplates) * sint (Count ip) < 2 ^ 63
              \<longrightarrow> sint (of_nat (length finalTemplates) * Count ip)
                    = int (length finalTemplates) * sint (Count ip))"
proof -
  from createExecuterFromOpts_None [OF assms(4)]
  obtain st engine where se: "store ctx = Some st" "executer ctx = Some engine"
    by blast
  define ft where "ft = store_Templates st @ store_Workflows st"
  note w = worker_executes [OF assms(1) assms(2) assms(3) assms(4) se assms(5) assms(6)]
  from w have e: "events (snd (worker c req s)) = events s1 @
             [Ev_Progress_Init tracker (Count ip) (of_nat (length ft)) (of_nat (length ft) * Count ip),
              Ev_Execute ft ip (engine_Execute c engine ft ip),
              Ev_GetMetrics tracker,
              Ev_Flush (logs ctx0), Ev_File_Close (logsFile ctx0),
              Ev_Running_Delete (ScanID req), Ev_RemoveAll dir]"
    unfolding ft_def by blast
  have a: "length ft < 2 ^ 63 \<longrightarrow> sint (of_nat (length ft) :: go_int) = int (length ft)"
    using sint_of_nat_len by blast
  have b: "- (2 ^ 63) \<le> int (length ft) * sint (Count ip)
             \<and> int (length ft) * sint (Count ip) < 2 ^ 63
           \<longrightarrow> sint (of_nat (length ft) * Count ip) = int (length ft) * sint (Count ip)"
    using sint_of_nat_mult by blast
  from se ft_def e a b show ?thesis by blast
qed

theorem progress_Init_before_Execute_witness:
  "events (snd (worker example_collab example_req idle_service)) =
     [Ev_Running_Store 7 (PercentReturnFunc (Some (StatsTicker 0))), Ev_Logs_Write 7,
      Ev_Progress_Init (StatsTicker 0) 3 2 6,
      Ev_Execute [Template ''cves/a.yaml'', Template ''cves/b.yaml''] \<lparr>Count = 3\<rparr>
        (Some (Error ''execution failed'')),
      Ev_GetMetrics (StatsTicker 0),
      Ev_Flush (bufio_NewWriter (LogFile 7)), Ev_File_Close (LogFile 7),
      Ev_Running_Delete 7, Ev_RemoveAll ''/tmp/nuclei-7'']"
proof -
  have t: "Progress (executerOpts example_scanCtx) = Some (StatsTicker 0)"
    by (simp add: ex_defs)
  from progress_Init_before_Execute
         [OF example_settings(2) example_stored(2) example_created(2) example_populate
             example_input t]
  show ?thesis
    by (simp add: ex_defs)
qed

text \<open>
  C9. For a job that gets as far as the engine, \<open>worker\<close> returns nil whatever
  value \<open>Execute\<close> returns; the call of \<open>Execute\<close> is followed by
  \<open>GetMetrics\<close>.
\<close>

theorem engine_result_discarded:
  assumes "getSettingsForName c (Config req) = Inr opts0"
      and "storeTemplatesFromRequest c (req_Templates req) = Inr (dir, tmpls, wfs)"
      and "createExecuterOpts c (ScanID req) dir
             (opts0\<lparr>TemplatesDirectory := dir, Templates := tmpls, Workflows := wfs\<rparr>) s = (Returned (Inr ctx0), s1)"
      and "createExecuterFromOpts c ctx0 = (None, ctx)"
      and "store ctx = Some st"
      and "executer ctx = Some engine"
      and "inputProviderFromRequest c (Targets req) = Inr ip"
      and "Progress (executerOpts ctx0) = Some tracker"
      and "engine_Execute c engine (store_Templates st @ store_Workflows st) ip = execResult"
  shows "fst (worker c req s) = Return None
       \<and> (\<exists>before after.
             events (snd (worker c req s)) =
               before @ [Ev_Execute (store_Templates st @ store_Workflows st) ip execResult,
                         Ev_GetMetrics tracker] @ after)"
proof -
  note w = worker_executes [OF assms(1) assms(2) assms(3) assms(4) assms(5) assms(6) assms(7) assms(8)]
  let ?ft = "store_Templates st @ store_Workflows st"
  have "events (snd (worker c req s)) =
          (events s1 @ [Ev_Progress_Init tracker (Count ip) (of_nat (length ?ft))
                          (of_nat (length ?ft) * Count ip)])
          @ [Ev_Execute ?ft ip execResult, Ev_GetMetrics tracker]
          @ [Ev_Flush (logs ctx0), Ev_File_Close (logsFile ctx0),
             Ev_Running_Delete (ScanID req), Ev_RemoveAll dir]"
    using w assms(9) by simp
  then show ?thesis using w by blast
qed

theorem engine_result_discarded_witness:
  "engine_Execute example_collab
      \<lparr>engine_options = example_options,
       engine_executerOptions =
         Some ((executerOpts example_scanCtx)\<lparr>WorkflowLoader := Some (Loader 0)\<rparr>)\<rparr>
      [Template ''cves/a.yaml'', Template ''cves/b.yaml''] \<lparr>Count = 3\<rparr>
     = Some (Error ''execution failed'')
   \<and> fst (worker example_collab example_req idle_service) = Return None"
proof -
  have t: "Progress (executerOpts example_scanCtx) = Some (StatsTicker 0)"
    by (simp add: ex_defs)
  have st: "store example_populated
              = Some \<lparr>store_Templates = [Template ''cves/a.yaml'', Template ''cves/b.yaml''],
                      store_Workflows = []\<rparr>"
    by (simp add: ex_defs)
  have en: "executer example_populated
              = Some \<lparr>engine_options = example_options,
                      engine_executerOptions =
                        Some ((executerOpts example_scanCtx)\<lparr>WorkflowLoader := Some (Loader 0)\<rparr>)\<rparr>"
    by (simp add: ex_defs)
  have ex: "engine_Execute example_collab
      \<lparr>engine_options = example_options,
       engine_executerOptions =
         Some ((executerOpts example_scanCtx)\<lparr>WorkflowLoader := Some (Loader 0)\<rparr>)\<rparr>
      (store_Templates \<lparr>store_Templates = [Template ''cves/a.yaml'', Template ''cves/b.yaml''],
                      store_Workflows = []\<rparr>
       @ store_Workflows \<lparr>store_Templates = [Template ''cves/a.yaml'', Template ''cves/b.yaml''],
                      store_Workflows = []\<rparr>) \<lparr>Count = 3\<rparr>
     = Some (Error ''execution failed'')"
    by (simp add: example_collab_def)
  from engine_result_discarded
         [OF example_settings(2) example_stored(2) example_created(2) example_populate
             st en example_input t ex] ex
  show ?thesis by simp
qed

text \<open>
  C10. The claim: \<open>createExecuterOpts\<close> can fail only through the log sink.
  The code at a record with both rate values 0: \<open>Logs.Write\<close> succeeds and the
  function still fails, by the panic of \<open>ratelimit.New(0)\<close> (line 70). It is
  left with the log sink open and with the accessor registered, stored before
  \<open>Logs.Write\<close>. The accessor is the one over the tracker that
  \<open>NewStatsTicker\<close> returned, also when that is nil and comes with an error,
  which is dropped.
\<close>

theorem createExecuterOpts_panics_with_log_open:
  "progress_NewStatsTicker example_collab 0 False False False 0 = (Some (StatsTicker 0), None)
   \<and> Logs_Write example_collab 7 = Inr (LogFile 7)
   \<and> createExecuterOpts example_collab 7 ''/tmp/nuclei-7'' zero_options idle_service
       = (Panicked,
          \<lparr>Running = [7 \<mapsto> PercentReturnFunc (Some (StatsTicker 0))], open_files = {LogFile 7},
           events = [Ev_Running_Store 7 (PercentReturnFunc (Some (StatsTicker 0))),
                     Ev_Logs_Write 7]\<rparr>)
   \<and> progress_NewStatsTicker ticker_failure_collab 0 False False False 0
       = (None, Some (Error ''clistats''))
   \<and> Logs_Write ticker_failure_collab 7 = Inr (LogFile 7)
   \<and> createExecuterOpts ticker_failure_collab 7 ''/tmp/nuclei-7'' zero_options idle_service
       = (Panicked,
          \<lparr>Running = [7 \<mapsto> PercentReturnFunc None], open_files = {LogFile 7},
           events = [Ev_Running_Store 7 (PercentReturnFunc None), Ev_Logs_Write 7]\<rparr>)"
  by (simp add: createExecuterOpts_def ratelimit_New_def ex_defs st_defs Let_def word_sless_alt)

end
